theory Spec2Isabelle
  imports Main
begin

section \<open>Regular expressions of the analyzer service\<close>

text \<open>
  The service (\<^verbatim>\<open>src/server/services/seoAnalyzer.ts\<close>, class \<^verbatim>\<open>SEOAnalyzerService\<close>)
  classifies textual addresses with JavaScript regular-expression literals.  Every literal
  of the file is anchored at the start (\<^verbatim>\<open>^\<close>), some also at the end (\<^verbatim>\<open>$\<close>), and is
  built from single characters, character ranges, concatenation, alternation and bounded
  repetition only.  \<open>rx\<close> is that fragment; the hostnames and resolver answers it is
  applied to are ASCII, so a \<open>string\<close> (one \<open>char\<close> per code unit) represents them.
\<close>

datatype rx =
    Chr char              \<comment> \<open>a literal character, e.g. \<^verbatim>\<open>\.\<close> or \<^verbatim>\<open>:\<close>\<close>
  | Rng char char         \<comment> \<open>a range \<^verbatim>\<open>[a-b]\<close>, bounds included\<close>
  | Cat rx rx             \<comment> \<open>concatenation\<close>
  | Alt rx rx             \<comment> \<open>alternation \<^verbatim>\<open>a|b\<close>, also the union of ranges in one class\<close>
  | Rpt nat nat rx        \<comment> \<open>bounded repetition \<^verbatim>\<open>{m,n}\<close>\<close>

text \<open>
  \<open>rpt f m n s\<close>: the inputs that remain after \<open>f\<close> has consumed a prefix between \<open>m\<close> and
  \<open>n\<close> times in a row, \<open>f s\<close> being the list of inputs that may remain after one round.
\<close>

fun rpt :: "(string \<Rightarrow> string list) \<Rightarrow> nat \<Rightarrow> nat \<Rightarrow> string \<Rightarrow> string list" where
  "rpt f 0 0 s = [s]"
| "rpt f 0 (Suc n) s = concat (map (rpt f 0 n) (f s)) @ [s]"
| "rpt f (Suc m) 0 s = []"
| "rpt f (Suc m) (Suc n) s = concat (map (rpt f m n) (f s))"

text \<open>
  \<open>rx_match r s\<close>: every input that may remain after \<open>r\<close> has matched a prefix of \<open>s\<close>
  (the backtracking matcher explores all of them).
\<close>

primrec rx_match :: "rx \<Rightarrow> string \<Rightarrow> string list" where
  "rx_match (Chr c) s = (case s of [] \<Rightarrow> [] | x # xs \<Rightarrow> if x = c then [xs] else [])"
| "rx_match (Rng lo hi) s =
     (case s of [] \<Rightarrow> []
      | x # xs \<Rightarrow> if (of_char lo :: nat) \<le> of_char x \<and> (of_char x :: nat) \<le> of_char hi
                 then [xs] else [])"
| "rx_match (Cat r1 r2) s = concat (map (rx_match r2) (rx_match r1 s))"
| "rx_match (Alt r1 r2) s = rx_match r1 s @ rx_match r2 s"
| "rx_match (Rpt m n r) s = rpt (rx_match r) m n s"

text \<open>
  A regular-expression literal of the source: \<open>Starts r\<close> is \<^verbatim>\<open>/^r/\<close> and \<open>Whole r\<close> is
  \<^verbatim>\<open>/^r$/\<close>.  \<open>test\<close> is \<^verbatim>\<open>RegExp.prototype.test\<close>.
\<close>

datatype regexp = Starts rx | Whole rx

fun test :: "regexp \<Rightarrow> string \<Rightarrow> bool" where
  "test (Starts r) s = (rx_match r s \<noteq> [])"
| "test (Whole r) s = ([] \<in> set (rx_match r s))"

text \<open>Building blocks: a literal string, \<^verbatim>\<open>\d\<close> (also \<^verbatim>\<open>[0-9]\<close>) and \<^verbatim>\<open>[0-9a-fA-F]\<close>.\<close>

fun lit :: "string \<Rightarrow> rx" where
  "lit [] = Rpt 0 0 (Chr CHR ''.'')"
| "lit [c] = Chr c"
| "lit (c # cs) = Cat (Chr c) (lit cs)"

definition digit :: rx where
  "digit = Rng CHR ''0'' CHR ''9''"

definition hexdigit :: rx where
  "hexdigit = Alt (Rng CHR ''0'' CHR ''9'') (Alt (Rng CHR ''a'' CHR ''f'') (Rng CHR ''A'' CHR ''F''))"

section \<open>The blocked range table\<close>

text \<open>\<^verbatim>\<open>BLOCKED_IP_RANGES\<close>, in the order of the source.\<close>

definition octet_100_64 :: rx where
  \<comment> \<open>\<^verbatim>\<open>(6[4-9]|[7-9][0-9]|1[0-1][0-9]|12[0-7])\<close>\<close>
  "octet_100_64 =
     Alt (Cat (Chr CHR ''6'') (Rng CHR ''4'' CHR ''9''))
    (Alt (Cat (Rng CHR ''7'' CHR ''9'') (Rng CHR ''0'' CHR ''9''))
    (Alt (Cat (Chr CHR ''1'') (Cat (Rng CHR ''0'' CHR ''1'') (Rng CHR ''0'' CHR ''9'')))
         (Cat (lit ''12'') (Rng CHR ''0'' CHR ''7''))))"

definition octet_172_16 :: rx where
  \<comment> \<open>\<^verbatim>\<open>(1[6-9]|2[0-9]|3[01])\<close>\<close>
  "octet_172_16 =
     Alt (Cat (Chr CHR ''1'') (Rng CHR ''6'' CHR ''9''))
    (Alt (Cat (Chr CHR ''2'') (Rng CHR ''0'' CHR ''9''))
         (Cat (Chr CHR ''3'') (Alt (Chr CHR ''0'') (Chr CHR ''1''))))"

definition BLOCKED_IP_RANGES :: "regexp list" where
  "BLOCKED_IP_RANGES =
    [ Starts (lit ''0.''),
      Starts (lit ''10.''),
      Starts (Cat (lit ''100.'') (Cat octet_100_64 (Chr CHR ''.''))),
      Starts (lit ''127.''),
      Starts (lit ''169.254.''),
      Starts (Cat (lit ''172.'') (Cat octet_172_16 (Chr CHR ''.''))),
      Starts (lit ''192.0.0.''),
      Starts (lit ''192.168.''),
      Starts (Cat (lit ''198.'') (Cat (Cat (Chr CHR ''1'') (Rng CHR ''8'' CHR ''9'')) (Chr CHR ''.''))),
      Starts (Cat (lit ''22'') (Cat (Rng CHR ''4'' CHR ''9'') (Chr CHR ''.''))),
      Starts (Cat (Chr CHR ''2'') (Cat (Rng CHR ''3'' CHR ''5'') (Cat (Rng CHR ''0'' CHR ''9'') (Chr CHR ''.'')))),
      Whole (lit ''255.255.255.255''),
      Whole (lit ''::1''),
      Starts (lit ''::ffff:127.''),
      Starts (lit ''::ffff:10.''),
      Starts (Cat (lit ''::ffff:172.'') (Cat octet_172_16 (Chr CHR ''.''))),
      Starts (lit ''::ffff:192.168.''),
      Starts (lit ''fc00:''),
      Starts (lit ''fd00:''),
      Starts (lit ''fe80:'') ]"

text \<open>\<^verbatim>\<open>METADATA_IPS\<close>: the literal addresses of cloud metadata services.\<close>

definition METADATA_IPS :: "string list" where
  "METADATA_IPS = [''169.254.169.254'', ''169.254.169.123'', ''100.100.100.200'']"

text \<open>\<^verbatim>\<open>isBlockedIP\<close>: \<^verbatim>\<open>BLOCKED_IP_RANGES.some(range => range.test(ip))\<close>.\<close>

definition isBlockedIP :: "string \<Rightarrow> bool" where
  "isBlockedIP ip = list_ex (\<lambda>range. test range ip) BLOCKED_IP_RANGES"

text \<open>
  \<^verbatim>\<open>isIPAddress\<close>: \<^verbatim>\<open>/^(?:\d{1,3}\.){3}\d{1,3}$/\<close> or
  \<^verbatim>\<open>/^(?:[0-9a-fA-F]{0,4}:){1,7}[0-9a-fA-F]{0,4}$/\<close>.
\<close>

definition ipv4_shape :: regexp where
  "ipv4_shape = Whole (Cat (Rpt 3 3 (Cat (Rpt 1 3 digit) (Chr CHR ''.''))) (Rpt 1 3 digit))"

definition ipv6_shape :: regexp where
  "ipv6_shape = Whole (Cat (Rpt 1 7 (Cat (Rpt 0 4 hexdigit) (Chr CHR '':''))) (Rpt 0 4 hexdigit))"

definition isIPAddress :: "string \<Rightarrow> bool" where
  "isIPAddress hostname = (test ipv4_shape hostname \<or> test ipv6_shape hostname)"

section \<open>JavaScript built-ins used by the service\<close>

text \<open>
  Truthiness of an optional string (\<^verbatim>\<open>if (location)\<close>, \<^verbatim>\<open>if (metaData.title)\<close>):
  \<^verbatim>\<open>undefined\<close> and the empty string are falsy.
\<close>

fun truthy :: "string option \<Rightarrow> bool" where
  "truthy None = False"
| "truthy (Some s) = (s \<noteq> [])"

text \<open>\<^verbatim>\<open>String.prototype.includes\<close>.\<close>

fun str_includes :: "string \<Rightarrow> string \<Rightarrow> bool" where
  "str_includes [] p = (p = [])"
| "str_includes (c # cs) p = (take (length p) (c # cs) = p \<or> str_includes cs p)"

text \<open>
  \<^verbatim>\<open>parseInt\<close> with no radix argument: leading white space is skipped, a sign is read, a
  \<^verbatim>\<open>0x\<close> prefix selects radix 16, and the longest run of digits is converted; \<open>None\<close> is
  \<^verbatim>\<open>NaN\<close>.  The values parsed here (ports, content lengths) are far below \<open>2^53\<close>, where a
  JavaScript number is exact.
\<close>

definition isWhiteSpace :: "char \<Rightarrow> bool" where
  "isWhiteSpace c = (of_char c \<in> {9, 10, 11, 12, 13, 32 :: nat})"

definition digitVal :: "char \<Rightarrow> nat option" where
  "digitVal c =
     (let n = of_char c :: nat in
      if 48 \<le> n \<and> n \<le> 57 then Some (n - 48)
      else if 97 \<le> n \<and> n \<le> 122 then Some (n - 87)
      else if 65 \<le> n \<and> n \<le> 90 then Some (n - 55)
      else None)"

fun radixDigits :: "nat \<Rightarrow> string \<Rightarrow> nat list" where
  "radixDigits R [] = []"
| "radixDigits R (c # cs) =
     (case digitVal c of
        None \<Rightarrow> []
      | Some d \<Rightarrow> if d < R then d # radixDigits R cs else [])"

definition parseInt :: "string \<Rightarrow> int option" where
  "parseInt str =
     (let s = dropWhile isWhiteSpace str;
          (sign, s1) = (case s of
                          [] \<Rightarrow> (1, s)
                        | c # cs \<Rightarrow> if c = CHR ''-'' then (- 1, cs)
                                    else if c = CHR ''+'' then (1, cs) else (1, s));
          (R, s2) = (case s1 of
                       a # b # cs \<Rightarrow> if a = CHR ''0'' \<and> (b = CHR ''x'' \<or> b = CHR ''X'')
                                       then (16, cs) else (10, s1)
                     | _ \<Rightarrow> (10, s1));
          ds = radixDigits R s2
      in if ds = [] then None
         else Some (sign * int (foldl (\<lambda>acc d. acc * R + d) 0 ds)))"

text \<open>
  The decimal text of a natural number (template literals, the port of a URL);
  \<open>digit_char\<close> is only applied to values below ten.
\<close>

definition digit_char :: "nat \<Rightarrow> char" where
  "digit_char d = ''0123456789'' ! d"

fun dec :: "nat \<Rightarrow> string" where
  "dec n = (if n < 10 then [digit_char n] else dec (n div 10) @ [digit_char (n mod 10)])"

declare dec.simps [simp del]


section \<open>Data of the service\<close>

text \<open>
  A parsed \<^verbatim>\<open>URL\<close> object, with the properties the service reads; \<open>href\<close> is what
  \<^verbatim>\<open>toString()\<close> returns.
\<close>

record url =
  protocol :: string
  hostname :: string
  port :: string
  href :: string

text \<open>An axios response (status, the headers that are read, the body) and an axios error.\<close>

record response =
  http_status :: nat
  location :: "string option"
  content_type :: "string option"
  content_length :: "string option"
  data :: string

record axios_error =
  code :: "string option"
  response_status :: "nat option"

text \<open>
  Every error the service throws is a plain \<^verbatim>\<open>Error\<close> told apart by its message; one
  constructor stands for each message.
\<close>

datatype error =
    InvalidURLFormat            \<comment> \<open>\<^verbatim>\<open>Invalid URL format\<close>\<close>
  | ProtocolNotAllowed          \<comment> \<open>\<^verbatim>\<open>Only HTTP and HTTPS protocols are allowed\<close>\<close>
  | PortNotAllowed "int option" \<comment> \<open>\<^verbatim>\<open>Port ${port} is not allowed\<close>\<close>
  | BlockedAddress string       \<comment> \<open>\<^verbatim>\<open>Access to IP ${ip} is blocked for security reasons\<close>\<close>
  | MetadataBlocked             \<comment> \<open>\<^verbatim>\<open>Access to metadata services is blocked\<close>\<close>
  | ResolutionFailure string    \<comment> \<open>\<^verbatim>\<open>Unable to resolve hostname: ${hostname}\<close>\<close>
  | ResolverError               \<comment> \<open>the rejection of \<^verbatim>\<open>dnsResolve4\<close> or \<^verbatim>\<open>dnsResolve6\<close>\<close>
  | NotHTML                     \<comment> \<open>\<^verbatim>\<open>URL does not serve HTML content\<close>\<close>
  | ContentTooLarge string      \<comment> \<open>\<^verbatim>\<open>Content too large (${contentLength} bytes). ...\<close>\<close>
  | NotHTMLContentType string   \<comment> \<open>\<^verbatim>\<open>URL does not serve HTML content (Content-Type: ...)\<close>\<close>
  | InvalidURL                  \<comment> \<open>the \<^verbatim>\<open>TypeError\<close> of \<^verbatim>\<open>new URL(location, url)\<close>\<close>
  | AxiosError axios_error      \<comment> \<open>an axios error passed on unchanged\<close>
  | WebsiteNotFound             \<comment> \<open>\<^verbatim>\<open>Website not found. ...\<close>\<close>
  | ConnectionRefused           \<comment> \<open>\<^verbatim>\<open>Connection refused. ...\<close>\<close>
  | AccessDenied                \<comment> \<open>\<^verbatim>\<open>Access denied. ...\<close>\<close>
  | PageNotFound                \<comment> \<open>\<^verbatim>\<open>Page not found. ...\<close>\<close>
  | RequestTimedOut             \<comment> \<open>\<^verbatim>\<open>Request timed out. ...\<close>\<close>
  | FetchFailed error           \<comment> \<open>\<^verbatim>\<open>Failed to fetch website: ${error.message}\<close>\<close>

text \<open>The metadata record, the issues and the tags of a report.\<close>

record HTMLMetaData =
  title :: "string option"
  description :: "string option"
  ogTitle :: "string option"
  ogDescription :: "string option"
  ogImage :: "string option"
  twitterTitle :: "string option"
  twitterDescription :: "string option"
  twitterImage :: "string option"
  canonical :: "string option"
  robots :: "string option"
  viewport :: "string option"

datatype issue_type = IssueError | IssueWarning | IssueSuccess

record SEOIssue =
  type :: issue_type
  message :: string

datatype tag_status = Good | Warning | Missing

record MetaTag =
  name :: string
  content :: string
  status :: tag_status
  recommendation :: "string option"

section \<open>The outside world\<close>

text \<open>
  The library calls of the service, as parameters: the WHATWG URL parser, the resolver, axios
  called with the options written in the source (\<^verbatim>\<open>maxRedirects: 0\<close>, the size limits and
  \<^verbatim>\<open>validateStatus\<close>), and the cheerio queries of \<^verbatim>\<open>parseMetaTags\<close>.  A call that throws
  or rejects yields \<open>None\<close> or \<open>Inl\<close>.
\<close>

record env =
  new_URL :: "string \<Rightarrow> url option"
  new_URL_base :: "string \<Rightarrow> string \<Rightarrow> string option"
  dnsResolve4 :: "string \<Rightarrow> string list option"
  dnsResolve6 :: "string \<Rightarrow> string list option"
  axios_head :: "string \<Rightarrow> axios_error + response"
  axios_get :: "string \<Rightarrow> axios_error + response"
  parseMetaTags :: "string \<Rightarrow> HTMLMetaData"

text \<open>The calls that leave the process, recorded in the order they are made.\<close>

datatype event = Resolve4 string | Resolve6 string | Head string | Get string

fun is_dns :: "event \<Rightarrow> bool" where
  "is_dns (Resolve4 h) = True"
| "is_dns (Resolve6 h) = True"
| "is_dns (Head u) = False"
| "is_dns (Get u) = False"

section \<open>Hostname validation\<close>

text \<open>
  The two loops of \<^verbatim>\<open>validateHostname\<close> over the resolved addresses: each returns
  \<open>Inl\<close> the error of the first \<^verbatim>\<open>throw\<close> it reaches.  The IPv6 loop has no metadata test.
\<close>

fun ipv4_loop :: "string list \<Rightarrow> error + unit" where
  "ipv4_loop [] = Inr ()"
| "ipv4_loop (ip # ips) =
     (if isBlockedIP ip then Inl (BlockedAddress ip)
      else if ip \<in> set METADATA_IPS then Inl MetadataBlocked
      else ipv4_loop ips)"

fun ipv6_loop :: "string list \<Rightarrow> error + unit" where
  "ipv6_loop [] = Inr ()"
| "ipv6_loop (ip # ips) =
     (if isBlockedIP ip then Inl (BlockedAddress ip) else ipv6_loop ips)"

text \<open>
  The statements of the two inner \<^verbatim>\<open>try\<close> blocks up to the assignment of the success flag:
  the resolver call, then the loop.  \<open>Inl\<close> is whatever the block throws.
\<close>

definition ipv4_try :: "env \<Rightarrow> string \<Rightarrow> error + unit" where
  "ipv4_try env host =
     (case dnsResolve4 env host of
        None \<Rightarrow> Inl ResolverError
      | Some ipv4Addresses \<Rightarrow> ipv4_loop ipv4Addresses)"

definition ipv6_try :: "env \<Rightarrow> string \<Rightarrow> error + unit" where
  "ipv6_try env host =
     (case dnsResolve6 env host of
        None \<Rightarrow> Inl ResolverError
      | Some ipv6Addresses \<Rightarrow> ipv6_loop ipv6Addresses)"

text \<open>
  \<^verbatim>\<open>validateHostname\<close>.  A literal address is classified at once.  Otherwise each inner
  \<^verbatim>\<open>try\<close> block sets its flag when it completes, and its \<^verbatim>\<open>catch (dnsError) { }\<close> discards
  whatever the block threw, the resolver's rejection and the loop's own errors alike.  The
  outer \<^verbatim>\<open>catch\<close> rethrows every \<^verbatim>\<open>Error\<close>, and the only one that reaches it is the
  resolution failure.
\<close>

definition validateHostname :: "env \<Rightarrow> string \<Rightarrow> event list \<Rightarrow> (error + unit) \<times> event list" where
  "validateHostname env host tr =
     (if isIPAddress host then
        (if isBlockedIP host then (Inl (BlockedAddress host), tr)
         else if host \<in> set METADATA_IPS then (Inl MetadataBlocked, tr)
         else (Inr (), tr))
      else
        let ipv4Success = (case ipv4_try env host of Inl dnsError \<Rightarrow> False | Inr _ \<Rightarrow> True);
            ipv6Success = (case ipv6_try env host of Inl dnsError \<Rightarrow> False | Inr _ \<Rightarrow> True);
            tr' = tr @ [Resolve4 host, Resolve6 host]
        in if \<not> ipv4Success \<and> \<not> ipv6Success then (Inl (ResolutionFailure host), tr')
           else (Inr (), tr'))"

section \<open>URL sanitization\<close>

definition ALLOWED_PORTS :: "int list" where
  "ALLOWED_PORTS = [80, 443, 8080, 8443]"

definition MAX_CONTENT_LENGTH :: int where
  "MAX_CONTENT_LENGTH = 10 * 1024 * 1024"

text \<open>\<^verbatim>\<open>ALLOWED_PORTS.has(port)\<close>; \<^verbatim>\<open>NaN\<close> is in no set.\<close>

fun port_allowed :: "int option \<Rightarrow> bool" where
  "port_allowed None = False"
| "port_allowed (Some n) = (n \<in> set ALLOWED_PORTS)"

text \<open>
  The \<^verbatim>\<open>port\<close> constant of \<^verbatim>\<open>validateAndSanitizeUrl\<close>: the parsed port of the URL, or the
  default port of its scheme when the URL object has none.
\<close>

definition effective_port :: "url \<Rightarrow> int option" where
  "effective_port parsedUrl =
     (if port parsedUrl \<noteq> [] then parseInt (port parsedUrl)
      else Some (if protocol parsedUrl = ''https:'' then 443 else 80))"

text \<open>
  The last two statements of \<^verbatim>\<open>validateAndSanitizeUrl\<close>: the awaited hostname validation,
  then \<^verbatim>\<open>return parsedUrl.toString()\<close>.
\<close>

definition hostname_stage :: "env \<Rightarrow> url \<Rightarrow> event list \<Rightarrow> (error + string) \<times> event list" where
  "hostname_stage env parsedUrl tr =
     (case validateHostname env (hostname parsedUrl) tr of
        (Inl e, tr') \<Rightarrow> (Inl e, tr')
      | (Inr _, tr') \<Rightarrow> (Inr (href parsedUrl), tr'))"

definition validateAndSanitizeUrl :: "env \<Rightarrow> string \<Rightarrow> event list \<Rightarrow> (error + string) \<times> event list" where
  "validateAndSanitizeUrl env raw tr =
     (case new_URL env raw of
        None \<Rightarrow> (Inl InvalidURLFormat, tr)
      | Some parsedUrl \<Rightarrow>
          if protocol parsedUrl \<notin> set [''http:'', ''https:''] then (Inl ProtocolNotAllowed, tr)
          else if \<not> port_allowed (effective_port parsedUrl)
          then (Inl (PortNotAllowed (effective_port parsedUrl)), tr)
          else hostname_stage env parsedUrl tr)"

section \<open>Fetching\<close>

text \<open>
  \<^verbatim>\<open>preflightCheck\<close>: a HEAD request; its \<^verbatim>\<open>catch\<close> lets a 405 pass and rethrows the rest.
\<close>

definition preflightCheck :: "env \<Rightarrow> string \<Rightarrow> event list \<Rightarrow> (error + unit) \<times> event list" where
  "preflightCheck env target tr =
     (let tr' = tr @ [Head target] in
      case axios_head env target of
        Inl ax \<Rightarrow> if response_status ax = Some 405 then (Inr (), tr') else (Inl (AxiosError ax), tr')
      | Inr resp \<Rightarrow>
          (case content_type resp of
             Some contentType \<Rightarrow>
               if contentType \<noteq> [] \<and> \<not> str_includes contentType ''text/html'' then (Inl NotHTML, tr')
               else (case content_length resp of
                       Some contentLength \<Rightarrow>
                         if contentLength \<noteq> [] \<and>
                            (case parseInt contentLength of None \<Rightarrow> False | Some n \<Rightarrow> n > MAX_CONTENT_LENGTH)
                         then (Inl (ContentTooLarge contentLength), tr') else (Inr (), tr')
                     | None \<Rightarrow> (Inr (), tr'))
           | None \<Rightarrow>
               (case content_length resp of
                  Some contentLength \<Rightarrow>
                    if contentLength \<noteq> [] \<and>
                       (case parseInt contentLength of None \<Rightarrow> False | Some n \<Rightarrow> n > MAX_CONTENT_LENGTH)
                    then (Inl (ContentTooLarge contentLength), tr') else (Inr (), tr')
                | None \<Rightarrow> (Inr (), tr'))))"

text \<open>The \<^verbatim>\<open>catch\<close> block of \<^verbatim>\<open>fetchHTML\<close> applied to an axios error.\<close>

definition fetch_catch_axios :: "axios_error \<Rightarrow> error" where
  "fetch_catch_axios ax =
     (if code ax = Some ''ENOTFOUND'' then WebsiteNotFound
      else if code ax = Some ''ECONNREFUSED'' then ConnectionRefused
      else if response_status ax = Some 403 then AccessDenied
      else if response_status ax = Some 404 then PageNotFound
      else if code ax = Some ''ETIMEDOUT'' then RequestTimedOut
      else FetchFailed (AxiosError ax))"

text \<open>
  \<^verbatim>\<open>fetchHTML\<close>.  A redirect status with a non-empty \<^verbatim>\<open>Location\<close> is resolved against the
  current URL, sanitized, and fetched by a recursive call; nothing counts the hops, so the
  function is partial: \<open>None\<close> is a chain of redirects that never ends.  An error thrown
  inside the \<^verbatim>\<open>try\<close> block (by \<^verbatim>\<open>new URL\<close>, by the awaited sanitizer, by the content-type
  test) is caught and wrapped.  The recursive call is returned without \<^verbatim>\<open>await\<close>, so its
  outcome is passed on as it is.
\<close>

partial_function (option) fetchHTML ::
    "env \<Rightarrow> string \<Rightarrow> event list \<Rightarrow> ((error + string) \<times> event list) option" where
  "fetchHTML env target tr =
     (let tr1 = tr @ [Get target] in
      case axios_get env target of
        Inl ax \<Rightarrow> Some (Inl (fetch_catch_axios ax), tr1)
      | Inr resp \<Rightarrow>
          if http_status resp \<ge> 300 \<and> http_status resp < 400 \<and> truthy (location resp) then
            (case new_URL_base env (case location resp of Some l \<Rightarrow> l | None \<Rightarrow> []) target of
               None \<Rightarrow> Some (Inl (FetchFailed InvalidURL), tr1)
             | Some redirectUrl \<Rightarrow>
                 (case validateAndSanitizeUrl env redirectUrl tr1 of
                    (Inl e, tr2) \<Rightarrow> Some (Inl (FetchFailed e), tr2)
                  | (Inr validatedRedirectUrl, tr2) \<Rightarrow> fetchHTML env validatedRedirectUrl tr2))
          else
            (case content_type resp of
               Some contentType \<Rightarrow>
                 if contentType \<noteq> [] \<and> \<not> str_includes contentType ''text/html''
                    \<and> \<not> str_includes contentType ''application/xhtml+xml''
                 then Some (Inl (FetchFailed (NotHTMLContentType contentType)), tr1)
                 else Some (Inr (data resp), tr1)
             | None \<Rightarrow> Some (Inr (data resp), tr1)))"

declare fetchHTML.simps [code]

section \<open>Scoring\<close>

text \<open>
  \<^verbatim>\<open>calculateSEOScore\<close> updates three local variables, \<^verbatim>\<open>score\<close>, \<^verbatim>\<open>issues\<close> and \<^verbatim>\<open>tags\<close>,
  section by section; \<open>report\<close> holds them, and each section is a function on it.
\<close>

record report =
  score :: int
  issues :: "SEOIssue list"
  tags :: "MetaTag list"

definition penalty :: "int \<Rightarrow> report \<Rightarrow> report" where
  "penalty n r = r\<lparr>score := score r - n\<rparr>"

definition push_issue :: "issue_type \<Rightarrow> string \<Rightarrow> report \<Rightarrow> report" where
  "push_issue t m r = r\<lparr>issues := issues r @ [\<lparr>type = t, message = m\<rparr>]\<rparr>"

definition push_tag :: "string \<Rightarrow> string \<Rightarrow> tag_status \<Rightarrow> string option \<Rightarrow> report \<Rightarrow> report" where
  "push_tag n c st rec r =
     r\<lparr>tags := tags r @ [\<lparr>name = n, content = c, status = st, recommendation = rec\<rparr>]\<rparr>"

text \<open>The value of a field that has been tested truthy.\<close>

fun text_of :: "string option \<Rightarrow> string" where
  "text_of None = []"
| "text_of (Some s) = s"

definition score_title :: "HTMLMetaData \<Rightarrow> report \<Rightarrow> report" where
  "score_title metaData r =
     (if truthy (title metaData) then
        let titleLength = length (text_of (title metaData)) in
        if titleLength < 30 then
          push_tag ''title'' (text_of (title metaData)) Warning
            (Some ''Title should be 30-60 characters long for optimal display in search results'')
            (push_issue IssueWarning (''Title too short ('' @ dec titleLength @ '' chars)'')
              (penalty 15 r))
        else if titleLength > 60 then
          push_tag ''title'' (text_of (title metaData)) Warning
            (Some ''Title should be 30-60 characters long to avoid truncation in search results'')
            (push_issue IssueWarning (''Title too long ('' @ dec titleLength @ '' chars)'')
              (penalty 10 r))
        else
          push_tag ''title'' (text_of (title metaData)) Good None
            (push_issue IssueSuccess ''Title tag length is optimal'' r)
      else
        push_tag ''title'' [] Missing
          (Some ''Add a unique, descriptive title tag (30-60 characters) to help search engines understand your page'')
          (push_issue IssueError ''Missing title tag'' (penalty 25 r)))"

definition score_description :: "HTMLMetaData \<Rightarrow> report \<Rightarrow> report" where
  "score_description metaData r =
     (if truthy (description metaData) then
        let descLength = length (text_of (description metaData)) in
        if descLength < 120 then
          push_tag ''description'' (text_of (description metaData)) Warning
            (Some ''Meta description should be 120-160 characters for optimal SERP display'')
            (push_issue IssueWarning (''Meta description too short ('' @ dec descLength @ '' chars)'')
              (penalty 10 r))
        else if descLength > 160 then
          push_tag ''description'' (text_of (description metaData)) Warning
            (Some ''Meta description should be 120-160 characters to avoid truncation'')
            (push_issue IssueWarning (''Meta description too long ('' @ dec descLength @ '' chars)'')
              (penalty 8 r))
        else
          push_tag ''description'' (text_of (description metaData)) Good None
            (push_issue IssueSuccess ''Meta description length is optimal'' r)
      else
        push_tag ''description'' [] Missing
          (Some ''Add a compelling meta description (120-160 characters) to improve click-through rates'')
          (push_issue IssueError ''Missing meta description'' (penalty 20 r)))"

definition score_open_graph :: "HTMLMetaData \<Rightarrow> report \<Rightarrow> report" where
  "score_open_graph metaData r =
     (if truthy (ogTitle metaData) \<and> truthy (ogDescription metaData) then
        push_tag ''og:description'' (text_of (ogDescription metaData)) Good None
          (push_tag ''og:title'' (text_of (ogTitle metaData)) Good None
            (push_issue IssueSuccess ''Open Graph tags configured'' r))
      else
        let r1 = push_issue IssueWarning ''Incomplete Open Graph tags'' (penalty 15 r);
            r2 = (if \<not> truthy (ogTitle metaData)
                  then push_tag ''og:title'' [] Missing
                         (Some ''Add Open Graph title for better social media sharing'') r1
                  else r1)
        in if \<not> truthy (ogDescription metaData)
           then push_tag ''og:description'' [] Missing
                  (Some ''Add Open Graph description for better social media sharing'') r2
           else r2)"

definition score_og_image :: "HTMLMetaData \<Rightarrow> report \<Rightarrow> report" where
  "score_og_image metaData r =
     (if truthy (ogImage metaData) then
        push_tag ''og:image'' (text_of (ogImage metaData)) Good None r
      else
        push_tag ''og:image'' [] Missing
          (Some ''Add an Open Graph image (1200x630px recommended) for better social media sharing'')
          (push_issue IssueWarning ''Missing Open Graph image'' (penalty 10 r)))"

definition score_canonical :: "HTMLMetaData \<Rightarrow> report \<Rightarrow> report" where
  "score_canonical metaData r =
     (if truthy (canonical metaData) then
        push_tag ''canonical'' (text_of (canonical metaData)) Good None
          (push_issue IssueSuccess ''Canonical URL specified'' r)
      else
        push_tag ''canonical'' [] Missing
          (Some ''Add canonical URL to avoid duplicate content issues'')
          (push_issue IssueWarning ''Missing canonical URL'' (penalty 8 r)))"

definition score_viewport :: "HTMLMetaData \<Rightarrow> report \<Rightarrow> report" where
  "score_viewport metaData r =
     (if truthy (viewport metaData) then
        push_tag ''viewport'' (text_of (viewport metaData)) Good None r
      else
        push_tag ''viewport'' [] Missing
          (Some ''Add viewport meta tag for mobile responsiveness'')
          (push_issue IssueWarning ''Missing viewport meta tag'' (penalty 5 r)))"

definition score_robots :: "HTMLMetaData \<Rightarrow> report \<Rightarrow> report" where
  "score_robots metaData r =
     (if truthy (robots metaData) then
        push_tag ''robots'' (text_of (robots metaData)) Good None r
      else
        push_tag ''robots'' [] Missing
          (Some ''Consider adding robots meta tag to control search engine crawling'') r)"

text \<open>\<^verbatim>\<open>calculateSEOScore\<close>; its second parameter, the URL, is not used by the source.\<close>

definition calculateSEOScore :: "HTMLMetaData \<Rightarrow> string \<Rightarrow> report" where
  "calculateSEOScore metaData analysed =
     (let r = score_robots metaData
               (score_viewport metaData
                 (score_canonical metaData
                   (score_og_image metaData
                     (score_open_graph metaData
                       (score_description metaData
                         (score_title metaData
                           \<lparr>score = 100, issues = [], tags = []\<rparr>))))))
      in r\<lparr>score := max 0 (score r)\<rparr>)"

section \<open>The analysis pipeline\<close>

text \<open>
  \<^verbatim>\<open>analyzeWebsite\<close>: sanitize, preflight, fetch, extract, score.  The response carries the
  validated URL, the metadata and the report; its time stamp is left out.
\<close>

record SEOAnalysisResponse =
  analysed_url :: string
  analysed_meta :: HTMLMetaData
  analysed_report :: report

definition analyzeWebsite ::
    "env \<Rightarrow> string \<Rightarrow> event list \<Rightarrow> ((error + SEOAnalysisResponse) \<times> event list) option" where
  "analyzeWebsite env raw tr =
     (case validateAndSanitizeUrl env raw tr of
        (Inl e, tr1) \<Rightarrow> Some (Inl e, tr1)
      | (Inr validatedUrl, tr1) \<Rightarrow>
          (case preflightCheck env validatedUrl tr1 of
             (Inl e, tr2) \<Rightarrow> Some (Inl e, tr2)
           | (Inr _, tr2) \<Rightarrow>
               (case fetchHTML env validatedUrl tr2 of
                  None \<Rightarrow> None
                | Some (Inl e, tr3) \<Rightarrow> Some (Inl e, tr3)
                | Some (Inr html, tr3) \<Rightarrow>
                    let metaData = parseMetaTags env html in
                    Some (Inr \<lparr>analysed_url = validatedUrl, analysed_meta = metaData,
                                analysed_report = calculateSEOScore metaData validatedUrl\<rparr>, tr3))))"

section \<open>Sample worlds\<close>

text \<open>Concrete resolvers, servers and pages on which the theorems below are exercised.\<close>

definition no_meta :: HTMLMetaData where
  "no_meta = \<lparr>title = None, description = None, ogTitle = None, ogDescription = None,
     ogImage = None, twitterTitle = None, twitterDescription = None, twitterImage = None,
     canonical = None, robots = None, viewport = None\<rparr>"

definition unreachable :: axios_error where
  "unreachable = \<lparr>code = Some ''ENOTFOUND'', response_status = None\<rparr>"

text \<open>A world where no URL parses, no name resolves and no server answers.\<close>

definition offline :: env where
  "offline = \<lparr>new_URL = (\<lambda>_. None), new_URL_base = (\<lambda>_ _. None),
     dnsResolve4 = (\<lambda>_. None), dnsResolve6 = (\<lambda>_. None),
     axios_head = (\<lambda>_. Inl unreachable), axios_get = (\<lambda>_. Inl unreachable),
     parseMetaTags = (\<lambda>_. no_meta)\<rparr>"

text \<open>The URL object of \<^verbatim>\<open>scheme//host[:port]/path\<close>.\<close>

definition mk_url :: "string \<Rightarrow> string \<Rightarrow> string \<Rightarrow> string \<Rightarrow> url" where
  "mk_url scheme host prt path =
     \<lparr>protocol = scheme, hostname = host, port = prt,
      href = scheme @ ''//'' @ host @ (if prt = [] then [] else '':'' @ prt) @ path\<rparr>"

text \<open>
  Names with a private A record: \<^verbatim>\<open>mixed.example\<close> also has a public AAAA record,
  \<^verbatim>\<open>inside.example\<close> has no AAAA record.  \<^verbatim>\<open>v6only.example\<close> has a public AAAA record
  only, and \<^verbatim>\<open>empty.example\<close> gets two empty answers.
\<close>

definition split_dns :: env where
  "split_dns = offline\<lparr>
     new_URL := map_of [(''http://mixed.example/'', mk_url ''http:'' ''mixed.example'' [] ''/'')],
     dnsResolve4 := (\<lambda>h. if h = ''mixed.example'' then Some [''127.0.0.1'']
                          else if h = ''inside.example'' then Some [''10.0.0.5'']
                          else if h = ''empty.example'' then Some []
                          else None),
     dnsResolve6 := (\<lambda>h. if h = ''mixed.example'' then Some [''2001:db8::1'']
                          else if h = ''v6only.example'' then Some [''2001:db8::2'']
                          else if h = ''empty.example'' then Some []
                          else None)\<rparr>"

definition redirect_to :: "string \<Rightarrow> response" where
  "redirect_to l = \<lparr>http_status = 302, location = Some l, content_type = None,
     content_length = None, data = []\<rparr>"

definition page :: "string \<Rightarrow> response" where
  "page html = \<lparr>http_status = 200, location = None, content_type = Some ''text/html'',
     content_length = None, data = html\<rparr>"

text \<open>A finite table of answers with a default.\<close>

definition map_of_default :: "('a \<times> 'b) list \<Rightarrow> 'b \<Rightarrow> 'a \<Rightarrow> 'b" where
  "map_of_default tab d k = (case map_of tab k of None \<Rightarrow> d | Some v \<Rightarrow> v)"

text \<open>
  A small web: \<^verbatim>\<open>a.example\<close> redirects to \<^verbatim>\<open>b.example\<close>, which redirects to
  \<^verbatim>\<open>c.example\<close>, which serves a page; \<^verbatim>\<open>d.example\<close> redirects to the loopback address.
  Every name resolves to one public IPv4 address and has no AAAA record.
\<close>

definition small_web :: env where
  "small_web = offline\<lparr>
     new_URL := map_of
       [(''http://a.example/'', mk_url ''http:'' ''a.example'' [] ''/''),
        (''http://b.example/'', mk_url ''http:'' ''b.example'' [] ''/''),
        (''http://c.example/'', mk_url ''http:'' ''c.example'' [] ''/''),
        (''http://d.example/'', mk_url ''http:'' ''d.example'' [] ''/''),
        (''http://127.0.0.1/'', mk_url ''http:'' ''127.0.0.1'' [] ''/''),
        (''http://169.254.169.254/latest/meta-data/'',
            mk_url ''http:'' ''169.254.169.254'' [] ''/latest/meta-data/''),
        (''ftp://127.0.0.1:22/'', mk_url ''ftp:'' ''127.0.0.1'' ''22'' ''/''),
        (''file:///etc/passwd'', mk_url ''file:'' [] [] ''/etc/passwd''),
        (''http://c.example:8081/'', mk_url ''http:'' ''c.example'' ''8081'' ''/''),
        (''https://c.example:8443/'', mk_url ''https:'' ''c.example'' ''8443'' ''/'')],
     new_URL_base := (\<lambda>l base. Some l),
     dnsResolve4 := (\<lambda>h. Some [''93.184.216.34'']),
     axios_head := (\<lambda>u. Inr (page [])),
     axios_get := map_of_default
       [(''http://a.example/'', Inr (redirect_to ''http://b.example/'')),
        (''http://b.example/'', Inr (redirect_to ''http://c.example/'')),
        (''http://c.example/'', Inr (page ''<title>c</title>'')),
        (''http://d.example/'', Inr (redirect_to ''http://127.0.0.1/''))]
       (Inl unreachable)\<rparr>"

text \<open>
  A page as the scenario of the specification describes it: a title of 45 characters, no
  meta description, complete Open Graph tags, no canonical link.
\<close>

definition scenario_meta :: HTMLMetaData where
  "scenario_meta = no_meta\<lparr>
     title := Some ''Example Domain - Illustrative Examples Online'',
     ogTitle := Some ''Example Domain'',
     ogDescription := Some ''Illustrative examples for documents'',
     ogImage := Some ''https://example.com/og.png''\<rparr>"

section \<open>The dotted-quad shape\<close>

text \<open>
  The shape that the first pattern of \<^verbatim>\<open>isIPAddress\<close> is meant to recognise, said without
  a regular expression: four groups of one to three decimal digits, separated by dots.
\<close>

definition is_digit :: "char \<Rightarrow> bool" where
  "is_digit c = (c \<in> set ''0123456789'')"

definition digit_group :: "string \<Rightarrow> bool" where
  "digit_group s = (1 \<le> length s \<and> length s \<le> 3 \<and> list_all is_digit s)"

definition dotted_quad :: "string \<Rightarrow> string \<Rightarrow> string \<Rightarrow> string \<Rightarrow> string" where
  "dotted_quad a b c d = a @ ''.'' @ b @ ''.'' @ c @ ''.'' @ d"

section \<open>The IPv4 ranges of the specification\<close>

text \<open>
  The dotted-decimal text of an IPv4 address, and membership of an address in one of the
  eleven IPv4 ranges that the specification lists (0.0.0.0/8, 10.0.0.0/8, 100.64.0.0/10,
  127.0.0.0/8, 169.254.0.0/16, 172.16.0.0/12, 192.0.0.0/24, 192.168.0.0/16, 198.18.0.0/15,
  224.0.0.0/4, 255.255.255.255/32), said on the four octets.
\<close>

definition ipv4_text :: "nat \<Rightarrow> nat \<Rightarrow> nat \<Rightarrow> nat \<Rightarrow> string" where
  "ipv4_text a b c d = dec a @ ''.'' @ dec b @ ''.'' @ dec c @ ''.'' @ dec d"

definition in_blocked_ipv4_range :: "nat \<Rightarrow> nat \<Rightarrow> nat \<Rightarrow> nat \<Rightarrow> bool" where
  "in_blocked_ipv4_range a b c d =
     (a = 0 \<or> a = 10 \<or> (a = 100 \<and> 64 \<le> b \<and> b \<le> 127) \<or> a = 127
      \<or> (a = 169 \<and> b = 254) \<or> (a = 172 \<and> 16 \<le> b \<and> b \<le> 31)
      \<or> (a = 192 \<and> b = 0 \<and> c = 0) \<or> (a = 192 \<and> b = 168)
      \<or> (a = 198 \<and> 18 \<le> b \<and> b \<le> 19) \<or> (224 \<le> a \<and> a \<le> 239)
      \<or> (a = 255 \<and> b = 255 \<and> c = 255 \<and> d = 255))"

text \<open>A text that one of the start-anchored patterns of the table matches as it stands.\<close>

definition blocked_prefix :: "string \<Rightarrow> bool" where
  "blocked_prefix p =
     list_ex (\<lambda>range. case range of Starts r \<Rightarrow> test range p | Whole r \<Rightarrow> False) BLOCKED_IP_RANGES"

section \<open>Facts about the stages\<close>

subsection \<open>Hostname validation\<close>

lemma validateHostname_literal:
  "isIPAddress host \<Longrightarrow>
   validateHostname env host tr =
     (if isBlockedIP host then Inl (BlockedAddress host)
      else if host \<in> set METADATA_IPS then Inl MetadataBlocked
      else Inr (), tr)"
  by (simp add: validateHostname_def)

lemma validateHostname_resolved:
  "\<not> isIPAddress host \<Longrightarrow>
   validateHostname env host tr =
     (if isl (ipv4_try env host) \<and> isl (ipv6_try env host)
      then Inl (ResolutionFailure host) else Inr (),
      tr @ [Resolve4 host, Resolve6 host])"
  by (simp add: validateHostname_def Let_def split: sum.splits)

lemma validateHostname_events:
  "\<exists>ds. snd (validateHostname env host tr) = tr @ ds \<and> list_all is_dns ds"
proof (cases "isIPAddress host")
  case True
  then show ?thesis by (simp add: validateHostname_literal)
next
  case False
  then show ?thesis by (simp add: validateHostname_resolved)
qed

lemma ipv4_loop_ok:
  "(ipv4_loop ips = Inr ()) = (\<forall>ip \<in> set ips. \<not> isBlockedIP ip \<and> ip \<notin> set METADATA_IPS)"
  by (induction ips) auto

lemma ipv6_loop_ok:
  "(ipv6_loop ips = Inr ()) = (\<forall>ip \<in> set ips. \<not> isBlockedIP ip)"
  by (induction ips) auto

lemma metadata_literals: "host \<in> set METADATA_IPS \<Longrightarrow> isIPAddress host"
  unfolding METADATA_IPS_def by (auto; code_simp)

subsection \<open>Sanitization\<close>

lemma sanitize_parse_failure:
  "new_URL env raw = None \<Longrightarrow> validateAndSanitizeUrl env raw tr = (Inl InvalidURLFormat, tr)"
  by (simp add: validateAndSanitizeUrl_def)

lemma sanitize_protocol_failure:
  "new_URL env raw = Some u \<Longrightarrow> protocol u \<noteq> ''http:'' \<Longrightarrow> protocol u \<noteq> ''https:'' \<Longrightarrow>
   validateAndSanitizeUrl env raw tr = (Inl ProtocolNotAllowed, tr)"
  by (simp add: validateAndSanitizeUrl_def)

lemma sanitize_port_failure:
  "new_URL env raw = Some u \<Longrightarrow> protocol u = ''http:'' \<or> protocol u = ''https:'' \<Longrightarrow>
   \<not> port_allowed (effective_port u) \<Longrightarrow>
   validateAndSanitizeUrl env raw tr = (Inl (PortNotAllowed (effective_port u)), tr)"
  by (auto simp add: validateAndSanitizeUrl_def)

lemma sanitize_hostname_stage:
  "new_URL env raw = Some u \<Longrightarrow> protocol u = ''http:'' \<or> protocol u = ''https:'' \<Longrightarrow>
   port_allowed (effective_port u) \<Longrightarrow>
   validateAndSanitizeUrl env raw tr = hostname_stage env u tr"
  by (auto simp add: validateAndSanitizeUrl_def)

lemma sanitize_events:
  "\<exists>ds. snd (validateAndSanitizeUrl env raw tr) = tr @ ds \<and> list_all is_dns ds"
proof (cases "new_URL env raw")
  case None
  then show ?thesis by (simp add: validateAndSanitizeUrl_def)
next
  case (Some u)
  obtain ds where ds: "snd (validateHostname env (hostname u) tr) = tr @ ds" "list_all is_dns ds"
    using validateHostname_events by blast
  show ?thesis
    using Some ds
    by (cases "validateHostname env (hostname u) tr")
       (auto simp: validateAndSanitizeUrl_def hostname_stage_def split: sum.splits)
qed

lemma analyze_sanitize_failure:
  "validateAndSanitizeUrl env raw tr = (Inl e, tr') \<Longrightarrow> analyzeWebsite env raw tr = Some (Inl e, tr')"
  by (simp add: analyzeWebsite_def)


subsection \<open>Decimal text and \<^verbatim>\<open>parseInt\<close>\<close>










subsection \<open>Matching the dotted-quad shape\<close>

lemma rpt_stop: "s \<in> set (rpt f 0 n s)"
  by (cases n) simp_all

lemma rpt_more:
  "t \<in> set (f s) \<Longrightarrow> u \<in> set (rpt f 0 n t) \<Longrightarrow> u \<in> set (rpt f 0 (Suc n) s)"
  by auto

lemma rpt_must:
  "t \<in> set (f s) \<Longrightarrow> u \<in> set (rpt f m n t) \<Longrightarrow> u \<in> set (rpt f (Suc m) (Suc n) s)"
  by auto

lemma match_Cat:
  "t \<in> set (rx_match r1 s) \<Longrightarrow> u \<in> set (rx_match r2 t) \<Longrightarrow> u \<in> set (rx_match (Cat r1 r2) s)"
  by auto

lemma match_digit: "is_digit x \<Longrightarrow> rx_match digit (x # xs) = [xs]"
  by (auto simp: is_digit_def digit_def)

lemma short_list:
  assumes "1 \<le> length a" and "length a \<le> 3"
  shows "(\<exists>x. a = [x]) \<or> (\<exists>x y. a = [x, y]) \<or> (\<exists>x y z. a = [x, y, z])"
proof -
  have "length a = Suc 0 \<or> length a = Suc (Suc 0) \<or> length a = Suc (Suc (Suc 0))"
    using assms by arith
  then show ?thesis by (auto simp: length_Suc_conv)
qed

lemma match_group:
  assumes "digit_group a"
  shows "rest \<in> set (rx_match (Rpt 1 3 digit) (a @ rest))"
proof -
  from assms have "1 \<le> length a" "length a \<le> 3" "list_all is_digit a"
    by (simp_all add: digit_group_def)
  from short_list [OF this(1,2)] this(3) consider
      x where "a = [x]" "is_digit x"
    | x y where "a = [x, y]" "is_digit x" "is_digit y"
    | x y z where "a = [x, y, z]" "is_digit x" "is_digit y" "is_digit z"
    by auto
  then show ?thesis
  proof cases
    case 1
    have "rest \<in> set (rpt (rx_match digit) (Suc 0) (Suc 2) (x # rest))"
      by (rule rpt_must [where t = rest]) (simp_all add: match_digit 1 rpt_stop)
    then show ?thesis by (simp add: 1 numeral_3_eq_3)
  next
    case 2
    have "rest \<in> set (rpt (rx_match digit) 0 (Suc 1) (y # rest))"
      by (rule rpt_more [where t = rest]) (simp_all add: match_digit 2 rpt_stop)
    then have "rest \<in> set (rpt (rx_match digit) (Suc 0) (Suc 2) (x # y # rest))"
      by (intro rpt_must [where t = "y # rest"]) (simp_all add: match_digit 2 numeral_2_eq_2)
    then show ?thesis by (simp add: 2 numeral_3_eq_3)
  next
    case 3
    have "rest \<in> set (rpt (rx_match digit) 0 (Suc 0) (z # rest))"
      by (rule rpt_more [where t = rest]) (simp_all add: match_digit 3)
    then have "rest \<in> set (rpt (rx_match digit) 0 (Suc 1) (y # z # rest))"
      by (intro rpt_more [where t = "z # rest"]) (simp_all add: match_digit 3)
    then have "rest \<in> set (rpt (rx_match digit) (Suc 0) (Suc 2) (x # y # z # rest))"
      by (intro rpt_must [where t = "y # z # rest"]) (simp_all add: match_digit 3 numeral_2_eq_2)
    then show ?thesis by (simp add: 3 numeral_3_eq_3)
  qed
qed

lemma match_group_dot:
  assumes "digit_group a"
  shows "rest \<in> set (rx_match (Cat (Rpt 1 3 digit) (Chr CHR ''.'')) (a @ ''.'' @ rest))"
  by (rule match_Cat [OF match_group [OF assms]]) simp

lemma dotted_quad_shape:
  assumes "digit_group a" "digit_group b" "digit_group c" "digit_group d"
  shows "test ipv4_shape (dotted_quad a b c d)"
proof -
  let ?g = "rx_match (Cat (Rpt 1 3 digit) (Chr CHR ''.''))"
  have 1: "b @ ''.'' @ c @ ''.'' @ d \<in> set (?g (dotted_quad a b c d))"
    unfolding dotted_quad_def by (rule match_group_dot [OF assms(1)])
  have 2: "c @ ''.'' @ d \<in> set (?g (b @ ''.'' @ c @ ''.'' @ d))"
    by (rule match_group_dot [OF assms(2)])
  have 3: "d \<in> set (?g (c @ ''.'' @ d))"
    by (rule match_group_dot [OF assms(3)])
  have r1: "d \<in> set (rpt ?g (Suc 0) (Suc 0) (c @ ''.'' @ d))"
    using 3 by simp
  have r2: "d \<in> set (rpt ?g (Suc (Suc 0)) (Suc (Suc 0)) (b @ ''.'' @ c @ ''.'' @ d))"
    using 2 r1 by (rule rpt_must [where f = ?g])
  have "d \<in> set (rpt ?g (Suc (Suc (Suc 0))) (Suc (Suc (Suc 0))) (dotted_quad a b c d))"
    using 1 r2 by (rule rpt_must [where f = ?g])
  then have "d \<in> set (rx_match (Rpt 3 3 (Cat (Rpt 1 3 digit) (Chr CHR ''.''))) (dotted_quad a b c d))"
    by (simp add: numeral_3_eq_3)
  moreover have "[] \<in> set (rx_match (Rpt 1 3 digit) d)"
    using match_group [OF assms(4), of "[]"] by simp
  ultimately have "[] \<in> set (rx_match (Cat (Rpt 3 3 (Cat (Rpt 1 3 digit) (Chr CHR ''.''))) (Rpt 1 3 digit))
                          (dotted_quad a b c d))"
    by (rule match_Cat)
  then show ?thesis by (simp add: ipv4_shape_def)
qed

subsection \<open>A redirect response\<close>

lemma fetchHTML_redirect:
  assumes "axios_get env target = Inr resp"
      and "300 \<le> http_status resp" and "http_status resp < 400"
      and "location resp = Some l" and "l \<noteq> []"
      and "new_URL_base env l target = Some redirectUrl"
  shows "fetchHTML env target tr =
           (case validateAndSanitizeUrl env redirectUrl (tr @ [Get target]) of
              (Inl e, tr2) \<Rightarrow> Some (Inl (FetchFailed e), tr2)
            | (Inr validatedRedirectUrl, tr2) \<Rightarrow> fetchHTML env validatedRedirectUrl tr2)"
  using assms by (subst fetchHTML.simps) (simp add: Let_def)

subsection \<open>Coverage of the IPv4 ranges\<close>

text \<open>
  A match of a start-anchored pattern survives any continuation of the input, so the
  coverage of a range follows from finitely many checks of prefixes.
\<close>

lemma rpt_extend:
  assumes f: "\<And>p t. t \<in> set (f p) \<Longrightarrow> t @ rest \<in> set (g (p @ rest))"
  shows "t \<in> set (rpt f m n p) \<Longrightarrow> t @ rest \<in> set (rpt g m n (p @ rest))"
proof (induction n arbitrary: m p t)
  case 0
  then show ?case by (cases m) simp_all
next
  case (Suc n)
  show ?case
  proof (cases m)
    case 0
    with Suc.prems consider "t = p" | u where "u \<in> set (f p)" "t \<in> set (rpt f 0 n u)"
      by auto
    then show ?thesis
    proof cases
      case 1
      then show ?thesis using 0 by simp
    next
      case 2
      from f [OF 2(1)] Suc.IH [OF 2(2)] show ?thesis using 0 by auto
    qed
  next
    case (Suc m')
    with Suc.prems obtain u where u: "u \<in> set (f p)" "t \<in> set (rpt f m' n u)"
      by auto
    from f [OF u(1)] Suc.IH [OF u(2)] show ?thesis using Suc by auto
  qed
qed

lemma rx_match_extend:
  "t \<in> set (rx_match r p) \<Longrightarrow> t @ rest \<in> set (rx_match r (p @ rest))"
proof (induction r arbitrary: p t)
  case (Chr c)
  then show ?case by (cases p) (auto split: if_splits)
next
  case (Rng lo hi)
  then show ?case by (cases p) (auto split: if_splits)
next
  case (Cat r1 r2)
  from Cat.prems obtain u where u: "u \<in> set (rx_match r1 p)" "t \<in> set (rx_match r2 u)"
    by auto
  from Cat.IH(1) [OF u(1)] Cat.IH(2) [OF u(2)] show ?case by auto
next
  case (Alt r1 r2)
  then show ?case by auto
next
  case (Rpt m n r)
  from Rpt.prems have "t \<in> set (rpt (rx_match r) m n p)" by simp
  then have "t @ rest \<in> set (rpt (rx_match r) m n (p @ rest))"
    by (rule rpt_extend [rotated]) (rule Rpt.IH)
  then show ?case by simp
qed

lemma test_Starts_extend:
  "test (Starts r) p \<Longrightarrow> test (Starts r) (p @ rest)"
proof -
  assume "test (Starts r) p"
  then obtain t where "t \<in> set (rx_match r p)" by (cases "rx_match r p") auto
  then have "t @ rest \<in> set (rx_match r (p @ rest))" by (rule rx_match_extend)
  then show ?thesis by auto
qed

lemma isBlockedIP_prefix:
  assumes "blocked_prefix p"
  shows "isBlockedIP (p @ rest)"
proof -
  from assms obtain rg where
    r: "rg \<in> set BLOCKED_IP_RANGES"
       "case rg of Starts r \<Rightarrow> test rg p | Whole r \<Rightarrow> False"
    unfolding blocked_prefix_def list_ex_iff by blast
  from r(2) obtain r' where "rg = Starts r'" "test (Starts r') p"
    by (cases rg) simp_all
  then have "test rg (p @ rest)" by (simp only: test_Starts_extend)
  with r(1) show ?thesis unfolding isBlockedIP_def list_ex_iff by blast
qed

lemma prefixes_224_checked: "\<forall>a \<in> set [224..<240]. blocked_prefix (dec a @ ''.'')"
  by code_simp

lemma prefixes_100_checked: "\<forall>b \<in> set [64..<128]. blocked_prefix (''100.'' @ dec b @ ''.'')"
  by code_simp

lemma prefixes_172_checked: "\<forall>b \<in> set [16..<32]. blocked_prefix (''172.'' @ dec b @ ''.'')"
  by code_simp

lemma prefixes_fixed:
  "blocked_prefix ''0.''" "blocked_prefix ''10.''" "blocked_prefix ''127.''"
  "blocked_prefix ''169.254.''" "blocked_prefix ''192.0.0.''" "blocked_prefix ''192.168.''"
  "blocked_prefix ''198.18.''" "blocked_prefix ''198.19.''"
  "isBlockedIP ''255.255.255.255''"
  by code_simp+

lemma in_upt: "m \<le> (b::nat) \<Longrightarrow> b < n \<Longrightarrow> b \<in> set [m..<n]"
  by (simp only: set_upt atLeastLessThan_iff)

lemma prefixes_224: "224 \<le> a \<Longrightarrow> a \<le> 239 \<Longrightarrow> blocked_prefix (dec a @ ''.'')"
proof -
  assume "224 \<le> a" "a \<le> 239"
  then have "a \<in> set [224..<240]" by (intro in_upt) arith+
  with prefixes_224_checked show ?thesis by blast
qed

lemma prefixes_100: "64 \<le> b \<Longrightarrow> b \<le> 127 \<Longrightarrow> blocked_prefix (''100.'' @ dec b @ ''.'')"
proof -
  assume "64 \<le> b" "b \<le> 127"
  then have "b \<in> set [64..<128]" by (intro in_upt) arith+
  with prefixes_100_checked show ?thesis by blast
qed

lemma prefixes_172: "16 \<le> b \<Longrightarrow> b \<le> 31 \<Longrightarrow> blocked_prefix (''172.'' @ dec b @ ''.'')"
proof -
  assume "16 \<le> b" "b \<le> 31"
  then have "b \<in> set [16..<32]" by (intro in_upt) arith+
  with prefixes_172_checked show ?thesis by blast
qed

lemma dec_values:
  "dec 0 = ''0''" "dec 10 = ''10''" "dec 100 = ''100''" "dec 127 = ''127''" "dec 169 = ''169''"
  "dec 172 = ''172''" "dec 192 = ''192''" "dec 198 = ''198''" "dec 254 = ''254''"
  "dec 168 = ''168''" "dec 255 = ''255''" "dec 18 = ''18''" "dec 19 = ''19''"
  by (simp_all add: dec.simps digit_char_def)

lemma ipv4_text_split:
  "ipv4_text a b c d = (dec a @ ''.'') @ (dec b @ ''.'' @ dec c @ ''.'' @ dec d)"
  "ipv4_text a b c d = (dec a @ ''.'' @ dec b @ ''.'') @ (dec c @ ''.'' @ dec d)"
  "ipv4_text a b c d = (dec a @ ''.'' @ dec b @ ''.'' @ dec c @ ''.'') @ dec d"
  by (simp_all add: ipv4_text_def)

lemma ipv4_ranges_blocked:
  assumes "in_blocked_ipv4_range a b c d"
  shows "isBlockedIP (ipv4_text a b c d)"
proof -
  have one: "blocked_prefix (dec a @ ''.'') \<Longrightarrow> ?thesis"
    unfolding ipv4_text_split(1) by (rule isBlockedIP_prefix)
  have two: "blocked_prefix (dec a @ ''.'' @ dec b @ ''.'') \<Longrightarrow> ?thesis"
    unfolding ipv4_text_split(2) by (rule isBlockedIP_prefix)
  have three: "blocked_prefix (dec a @ ''.'' @ dec b @ ''.'' @ dec c @ ''.'') \<Longrightarrow> ?thesis"
    unfolding ipv4_text_split(3) by (rule isBlockedIP_prefix)
  from assms have
    "a = 0 \<or> a = 10 \<or> (a = 100 \<and> 64 \<le> b \<and> b \<le> 127) \<or> a = 127
      \<or> (a = 169 \<and> b = 254) \<or> (a = 172 \<and> 16 \<le> b \<and> b \<le> 31)
      \<or> (a = 192 \<and> b = 0 \<and> c = 0) \<or> (a = 192 \<and> b = 168)
      \<or> (a = 198 \<and> 18 \<le> b \<and> b \<le> 19) \<or> (224 \<le> a \<and> a \<le> 239)
      \<or> (a = 255 \<and> b = 255 \<and> c = 255 \<and> d = 255)"
    by (simp only: in_blocked_ipv4_range_def)
  then show ?thesis
  proof (elim disjE conjE)
    assume "a = 0"
    then show ?thesis using prefixes_fixed(1) by (intro one) (simp add: dec_values)
  next
    assume "a = 10"
    then show ?thesis using prefixes_fixed(2) by (intro one) (simp add: dec_values)
  next
    assume "a = 100" "64 \<le> b" "b \<le> 127"
    then show ?thesis using prefixes_100 [of b] by (intro two) (simp add: dec_values)
  next
    assume "a = 127"
    then show ?thesis using prefixes_fixed(3) by (intro one) (simp add: dec_values)
  next
    assume "a = 169" "b = 254"
    then show ?thesis using prefixes_fixed(4) by (intro two) (simp add: dec_values)
  next
    assume "a = 172" "16 \<le> b" "b \<le> 31"
    then show ?thesis using prefixes_172 [of b] by (intro two) (simp add: dec_values)
  next
    assume "a = 192" "b = 0" "c = 0"
    then show ?thesis using prefixes_fixed(5) by (intro three) (simp add: dec_values)
  next
    assume "a = 192" "b = 168"
    then show ?thesis using prefixes_fixed(6) by (intro two) (simp add: dec_values)
  next
    assume "a = 198" "18 \<le> b" "b \<le> 19"
    then have "b = 18 \<or> b = 19" by arith
    with \<open>a = 198\<close> show ?thesis
      using prefixes_fixed(7,8) by (intro two) (auto simp add: dec_values)
  next
    assume "224 \<le> a" "a \<le> 239"
    then show ?thesis by (intro one prefixes_224)
  next
    assume "a = 255" "b = 255" "c = 255" "d = 255"
    then show ?thesis using prefixes_fixed(9) by (simp add: ipv4_text_def dec_values)
  qed
qed

section \<open>Resolved addresses in a blocked range\<close>

text \<open>
  Claim C1.  The claim: a hostname that resolves to a blocked address fails validation with
  the blocked-address error, even when its other addresses are public.  The code does
  otherwise.  The \<^verbatim>\<open>throw\<close> of each loop sits inside the \<^verbatim>\<open>try\<close> block whose \<^verbatim>\<open>catch\<close>
  discards every error, so a blocked address only leaves the success flag unset.
  \<^verbatim>\<open>mixed.example\<close> resolves to 127.0.0.1 and to a public IPv6 address: validation
  succeeds, and the sanitizer returns \<^verbatim>\<open>http://mixed.example/\<close> as a validated URL.
  \<^verbatim>\<open>inside.example\<close> resolves to 10.0.0.5 alone: validation fails, but with the
  resolution failure, not the blocked-address error.
\<close>

theorem blocked_resolved_address_swallowed:
  "\<not> isIPAddress ''mixed.example'' \<and> isBlockedIP ''127.0.0.1''
   \<and> dnsResolve4 split_dns ''mixed.example'' = Some [''127.0.0.1'']
   \<and> validateHostname split_dns ''mixed.example'' [] =
         (Inr (), [Resolve4 ''mixed.example'', Resolve6 ''mixed.example''])
   \<and> validateAndSanitizeUrl split_dns ''http://mixed.example/'' [] =
         (Inr ''http://mixed.example/'', [Resolve4 ''mixed.example'', Resolve6 ''mixed.example''])
   \<and> isBlockedIP ''10.0.0.5''
   \<and> dnsResolve4 split_dns ''inside.example'' = Some [''10.0.0.5'']
   \<and> dnsResolve6 split_dns ''inside.example'' = None
   \<and> validateHostname split_dns ''inside.example'' [] =
         (Inl (ResolutionFailure ''inside.example''),
          [Resolve4 ''inside.example'', Resolve6 ''inside.example''])"
  by code_simp

section \<open>Redirects\<close>

text \<open>
  Claim C2.  The claim: a second redirect in one request fails with a too-many-redirects
  error.  The code has no such error and no hop counter: \<^verbatim>\<open>fetchHTML\<close> calls itself on
  every redirect.  In \<open>small_web\<close> the request for \<^verbatim>\<open>a.example\<close> is redirected twice and
  returns the page of \<^verbatim>\<open>c.example\<close>, after three GET requests.
\<close>

theorem second_redirect_is_followed:
  "fetchHTML small_web ''http://a.example/'' [] =
     Some (Inr ''<title>c</title>'',
           [Get ''http://a.example/'', Resolve4 ''b.example'', Resolve6 ''b.example'',
            Get ''http://b.example/'', Resolve4 ''c.example'', Resolve6 ''c.example'',
            Get ''http://c.example/''])"
  by code_simp

text \<open>
  Claim C3.  When \<^verbatim>\<open>fetchHTML\<close> receives a redirect status with a non-empty \<^verbatim>\<open>Location\<close>,
  it resolves the location against the current URL and runs \<^verbatim>\<open>validateAndSanitizeUrl\<close> on
  the result before anything else: if the sanitizer fails, the request fails with the
  sanitizer's error (wrapped by the \<^verbatim>\<open>catch\<close> block into \<^verbatim>\<open>Failed to fetch website: ...\<close>)
  and nothing but resolver calls has followed the first GET; if it succeeds, the fetch
  continues with the sanitized URL.  In particular a redirect to \<^verbatim>\<open>http://127.0.0.1/\<close> fails
  with the blocked-address error for 127.0.0.1, and the only request made is the first GET.
\<close>

theorem redirect_target_revalidated:
  assumes "axios_get env target = Inr resp"
      and "300 \<le> http_status resp" and "http_status resp < 400"
      and "location resp = Some l" and "l \<noteq> []"
      and "new_URL_base env l target = Some redirectUrl"
  shows "(\<forall>e tr2. validateAndSanitizeUrl env redirectUrl (tr @ [Get target]) = (Inl e, tr2) \<longrightarrow>
            fetchHTML env target tr = Some (Inl (FetchFailed e), tr2)
            \<and> (\<exists>ds. tr2 = tr @ [Get target] @ ds \<and> list_all is_dns ds))
       \<and> (\<forall>v tr2. validateAndSanitizeUrl env redirectUrl (tr @ [Get target]) = (Inr v, tr2) \<longrightarrow>
            fetchHTML env target tr = fetchHTML env v tr2
            \<and> (\<exists>ds. tr2 = tr @ [Get target] @ ds \<and> list_all is_dns ds))
       \<and> (\<forall>u. new_URL env redirectUrl = Some u \<and> protocol u = ''http:'' \<and> port u = []
                \<and> hostname u = ''127.0.0.1'' \<longrightarrow>
            fetchHTML env target tr =
              Some (Inl (FetchFailed (BlockedAddress ''127.0.0.1'')), tr @ [Get target]))"
proof (intro conjI allI impI)
  fix e tr2
  assume v: "validateAndSanitizeUrl env redirectUrl (tr @ [Get target]) = (Inl e, tr2)"
  show "fetchHTML env target tr = Some (Inl (FetchFailed e), tr2)"
    by (simp add: fetchHTML_redirect [OF assms] v)
  show "\<exists>ds. tr2 = tr @ [Get target] @ ds \<and> list_all is_dns ds"
    using sanitize_events [of env redirectUrl "tr @ [Get target]"] v by simp
next
  fix v tr2
  assume v: "validateAndSanitizeUrl env redirectUrl (tr @ [Get target]) = (Inr v, tr2)"
  show "fetchHTML env target tr = fetchHTML env v tr2"
    by (simp add: fetchHTML_redirect [OF assms] v)
  show "\<exists>ds. tr2 = tr @ [Get target] @ ds \<and> list_all is_dns ds"
    using sanitize_events [of env redirectUrl "tr @ [Get target]"] v by simp
next
  fix u
  assume u: "new_URL env redirectUrl = Some u \<and> protocol u = ''http:'' \<and> port u = []
               \<and> hostname u = ''127.0.0.1''"
  have lit: "isIPAddress ''127.0.0.1''" by code_simp
  have blk: "isBlockedIP ''127.0.0.1''" by code_simp
  have pa: "port_allowed (effective_port u)"
    using u by (simp add: effective_port_def ALLOWED_PORTS_def)
  have "validateAndSanitizeUrl env redirectUrl (tr @ [Get target]) =
          (Inl (BlockedAddress ''127.0.0.1''), tr @ [Get target])"
    using u pa blk
    by (simp add: sanitize_hostname_stage hostname_stage_def validateHostname_literal [OF lit])
  then show "fetchHTML env target tr =
               Some (Inl (FetchFailed (BlockedAddress ''127.0.0.1'')), tr @ [Get target])"
    by (simp add: fetchHTML_redirect [OF assms])
qed

text \<open>In \<open>small_web\<close>, \<^verbatim>\<open>d.example\<close> redirects to the loopback address.\<close>

theorem redirect_target_revalidated_witness:
  "axios_get small_web ''http://d.example/'' = Inr (redirect_to ''http://127.0.0.1/'')
   \<and> 300 \<le> http_status (redirect_to ''http://127.0.0.1/'')
   \<and> http_status (redirect_to ''http://127.0.0.1/'') < 400
   \<and> location (redirect_to ''http://127.0.0.1/'') = Some ''http://127.0.0.1/''
   \<and> new_URL_base small_web ''http://127.0.0.1/'' ''http://d.example/'' = Some ''http://127.0.0.1/''
   \<and> new_URL small_web ''http://127.0.0.1/'' = Some (mk_url ''http:'' ''127.0.0.1'' [] ''/'')
   \<and> fetchHTML small_web ''http://d.example/'' [] =
        Some (Inl (FetchFailed (BlockedAddress ''127.0.0.1'')), [Get ''http://d.example/''])"
proof -
  have g: "axios_get small_web ''http://d.example/'' = Inr (redirect_to ''http://127.0.0.1/'')"
    by code_simp
  have s1: "300 \<le> http_status (redirect_to ''http://127.0.0.1/'')"
    and s2: "http_status (redirect_to ''http://127.0.0.1/'') < 400"
    and lo: "location (redirect_to ''http://127.0.0.1/'') = Some ''http://127.0.0.1/''"
    by (simp_all add: redirect_to_def)
  have ne: "''http://127.0.0.1/'' \<noteq> []" by simp
  have b: "new_URL_base small_web ''http://127.0.0.1/'' ''http://d.example/'' = Some ''http://127.0.0.1/''"
    by code_simp
  have p: "new_URL small_web ''http://127.0.0.1/'' = Some (mk_url ''http:'' ''127.0.0.1'' [] ''/'')"
    by code_simp
  have u: "protocol (mk_url ''http:'' ''127.0.0.1'' [] ''/'') = ''http:''
           \<and> port (mk_url ''http:'' ''127.0.0.1'' [] ''/'') = []
           \<and> hostname (mk_url ''http:'' ''127.0.0.1'' [] ''/'') = ''127.0.0.1''"
    by (simp add: mk_url_def)
  from redirect_target_revalidated [OF g s1 s2 lo ne b, of "[]"] p u g s1 s2 lo b
  show ?thesis by simp
qed

section \<open>Coverage of the blocked range table\<close>

text \<open>
  Claim C4.  The claim: every address of the eleven IPv4 ranges, and every address of
  fc00::/7 and of fe80::/10, is classified as blocked.  The IPv4 part holds
  (\<open>ipv4_ranges_blocked\<close>).  The IPv6 part does not.
  The three IPv6 prefix patterns \<^verbatim>\<open>/^fc00:/\<close>, \<^verbatim>\<open>/^fd00:/\<close> and \<^verbatim>\<open>/^fe80:/\<close> match one
  value of the first group each, although their comments announce fc00::/8, fd00::/8 and
  the link-local range: the unique local addresses \<^verbatim>\<open>fd12:3456:789a::1\<close> and \<^verbatim>\<open>fc01::1\<close>
  and the link-local address \<^verbatim>\<open>fe90::1\<close> are not blocked.
\<close>

theorem unique_local_address_not_blocked:
  "\<not> isBlockedIP ''fd12:3456:789a::1'' \<and> \<not> isBlockedIP ''fc01::1'' \<and> \<not> isBlockedIP ''fe90::1''"
  by code_simp

section \<open>Metadata addresses\<close>

text \<open>
  Claim C5, as stated, says that 100.100.100.200 lies outside every blocked range.  It does
  not: the address is in 100.64.0.0/10 and matches the carrier-grade NAT pattern of the
  table.
\<close>

theorem alibaba_metadata_in_blocked_range:
  "''100.100.100.200'' \<in> set METADATA_IPS
   \<and> test (Starts (Cat (lit ''100.'') (Cat octet_100_64 (Chr CHR ''.'')))) ''100.100.100.200''
   \<and> isBlockedIP ''100.100.100.200''"
  by code_simp

text \<open>
  Claim C5, amended.  For every URL whose hostname is one of the three metadata addresses,
  sanitization fails and \<^verbatim>\<open>analyzeWebsite\<close> stops there, without any resolver call or
  request.  The hostname check fails whatever the range table says about the address: with
  the blocked-address error when the address matches a range, with the metadata error
  otherwise.  (All three addresses match a range.)
\<close>

theorem metadata_literal_rejected:
  assumes "new_URL env raw = Some u" and "hostname u \<in> set METADATA_IPS"
  shows "\<exists>e. validateAndSanitizeUrl env raw tr = (Inl e, tr)
            \<and> analyzeWebsite env raw tr = Some (Inl e, tr)
            \<and> validateHostname env (hostname u) tr =
                (Inl (if isBlockedIP (hostname u) then BlockedAddress (hostname u)
                      else MetadataBlocked), tr)"
proof -
  have lit: "isIPAddress (hostname u)"
    using assms(2) by (rule metadata_literals)
  have vh: "validateHostname env (hostname u) tr =
              (Inl (if isBlockedIP (hostname u) then BlockedAddress (hostname u)
                    else MetadataBlocked), tr)"
    using assms(2) by (simp add: validateHostname_literal [OF lit])
  have "\<exists>e. validateAndSanitizeUrl env raw tr = (Inl e, tr)"
    using assms(1) vh by (simp add: validateAndSanitizeUrl_def hostname_stage_def)
  then obtain e where e: "validateAndSanitizeUrl env raw tr = (Inl e, tr)" ..
  from e analyze_sanitize_failure [OF e] vh show ?thesis by blast
qed

text \<open>The scenario of the specification: \<^verbatim>\<open>http://169.254.169.254/latest/meta-data/\<close>.\<close>

theorem metadata_literal_rejected_witness:
  "new_URL small_web ''http://169.254.169.254/latest/meta-data/'' =
     Some (mk_url ''http:'' ''169.254.169.254'' [] ''/latest/meta-data/'')
   \<and> hostname (mk_url ''http:'' ''169.254.169.254'' [] ''/latest/meta-data/'') \<in> set METADATA_IPS
   \<and> (\<exists>e. validateAndSanitizeUrl small_web ''http://169.254.169.254/latest/meta-data/'' [] = (Inl e, [])
          \<and> analyzeWebsite small_web ''http://169.254.169.254/latest/meta-data/'' [] = Some (Inl e, []))"
proof -
  have p: "new_URL small_web ''http://169.254.169.254/latest/meta-data/'' =
             Some (mk_url ''http:'' ''169.254.169.254'' [] ''/latest/meta-data/'')"
    by code_simp
  have h: "hostname (mk_url ''http:'' ''169.254.169.254'' [] ''/latest/meta-data/'') \<in> set METADATA_IPS"
    by code_simp
  from metadata_literal_rejected [OF p h, of "[]"] p h show ?thesis by blast
qed

section \<open>Order of the checks\<close>

text \<open>
  Claim C6.  \<^verbatim>\<open>validateAndSanitizeUrl\<close> checks in the order parse, protocol, port, hostname
  and stops at the first failure.  A URL that does not parse fails with the format error.
  A URL whose scheme is neither http nor https fails with the protocol error, whatever its
  port and hostname are, with no resolver call and no request (the record of calls is
  unchanged), and \<^verbatim>\<open>analyzeWebsite\<close> fails the same way.  With an allowed scheme, a port
  outside the allow-list fails with the port error, again before any resolver call.  Only
  then is the hostname validated.  The result is an error or the URL, never part of one.
\<close>

theorem sanitize_fail_fast_order:
  "(new_URL env raw = None \<longrightarrow>
      validateAndSanitizeUrl env raw tr = (Inl InvalidURLFormat, tr))
   \<and> (\<forall>u. new_URL env raw = Some u \<and> protocol u \<noteq> ''http:'' \<and> protocol u \<noteq> ''https:'' \<longrightarrow>
          validateAndSanitizeUrl env raw tr = (Inl ProtocolNotAllowed, tr)
          \<and> analyzeWebsite env raw tr = Some (Inl ProtocolNotAllowed, tr))
   \<and> (\<forall>u. new_URL env raw = Some u \<and> (protocol u = ''http:'' \<or> protocol u = ''https:'')
          \<and> \<not> port_allowed (effective_port u) \<longrightarrow>
          validateAndSanitizeUrl env raw tr = (Inl (PortNotAllowed (effective_port u)), tr))
   \<and> (\<forall>u. new_URL env raw = Some u \<and> (protocol u = ''http:'' \<or> protocol u = ''https:'')
          \<and> port_allowed (effective_port u) \<longrightarrow>
          validateAndSanitizeUrl env raw tr = hostname_stage env u tr)"
proof (intro conjI allI impI)
  assume "new_URL env raw = None"
  then show "validateAndSanitizeUrl env raw tr = (Inl InvalidURLFormat, tr)"
    by (rule sanitize_parse_failure)
next
  fix u
  assume h: "new_URL env raw = Some u \<and> protocol u \<noteq> ''http:'' \<and> protocol u \<noteq> ''https:''"
  then show s: "validateAndSanitizeUrl env raw tr = (Inl ProtocolNotAllowed, tr)"
    by (simp add: sanitize_protocol_failure)
  show "analyzeWebsite env raw tr = Some (Inl ProtocolNotAllowed, tr)"
    using s by (rule analyze_sanitize_failure)
next
  fix u
  assume "new_URL env raw = Some u \<and> (protocol u = ''http:'' \<or> protocol u = ''https:'')
            \<and> \<not> port_allowed (effective_port u)"
  then show "validateAndSanitizeUrl env raw tr = (Inl (PortNotAllowed (effective_port u)), tr)"
    by (simp add: sanitize_port_failure)
next
  fix u
  assume "new_URL env raw = Some u \<and> (protocol u = ''http:'' \<or> protocol u = ''https:'')
            \<and> port_allowed (effective_port u)"
  then show "validateAndSanitizeUrl env raw tr = hostname_stage env u tr"
    by (simp add: sanitize_hostname_stage)
qed

text \<open>
  One URL for each stage: a string that does not parse; an FTP URL whose port and host
  would be refused as well; an HTTP URL with port 8081; an HTTP URL that passes.
\<close>

theorem sanitize_fail_fast_order_witness:
  "new_URL offline ''not a url'' = None
   \<and> validateAndSanitizeUrl offline ''not a url'' [] = (Inl InvalidURLFormat, [])
   \<and> new_URL small_web ''ftp://127.0.0.1:22/'' = Some (mk_url ''ftp:'' ''127.0.0.1'' ''22'' ''/'')
   \<and> protocol (mk_url ''ftp:'' ''127.0.0.1'' ''22'' ''/'') \<noteq> ''http:''
   \<and> protocol (mk_url ''ftp:'' ''127.0.0.1'' ''22'' ''/'') \<noteq> ''https:''
   \<and> validateAndSanitizeUrl small_web ''ftp://127.0.0.1:22/'' [] = (Inl ProtocolNotAllowed, [])
   \<and> analyzeWebsite small_web ''ftp://127.0.0.1:22/'' [] = Some (Inl ProtocolNotAllowed, [])
   \<and> new_URL small_web ''http://c.example:8081/'' = Some (mk_url ''http:'' ''c.example'' ''8081'' ''/'')
   \<and> \<not> port_allowed (effective_port (mk_url ''http:'' ''c.example'' ''8081'' ''/''))
   \<and> validateAndSanitizeUrl small_web ''http://c.example:8081/'' [] =
        (Inl (PortNotAllowed (effective_port (mk_url ''http:'' ''c.example'' ''8081'' ''/''))), [])
   \<and> new_URL small_web ''http://c.example/'' = Some (mk_url ''http:'' ''c.example'' [] ''/'')
   \<and> port_allowed (effective_port (mk_url ''http:'' ''c.example'' [] ''/''))
   \<and> validateAndSanitizeUrl small_web ''http://c.example/'' [] =
        hostname_stage small_web (mk_url ''http:'' ''c.example'' [] ''/'') []"
proof -
  have p0: "new_URL offline ''not a url'' = None"
    by (simp add: offline_def)
  have p1: "new_URL small_web ''ftp://127.0.0.1:22/'' = Some (mk_url ''ftp:'' ''127.0.0.1'' ''22'' ''/'')"
    by code_simp
  have s1: "protocol (mk_url ''ftp:'' ''127.0.0.1'' ''22'' ''/'') \<noteq> ''http:''"
           "protocol (mk_url ''ftp:'' ''127.0.0.1'' ''22'' ''/'') \<noteq> ''https:''"
    by (simp_all add: mk_url_def)
  have p2: "new_URL small_web ''http://c.example:8081/'' = Some (mk_url ''http:'' ''c.example'' ''8081'' ''/'')"
    by code_simp
  have s2: "protocol (mk_url ''http:'' ''c.example'' ''8081'' ''/'') = ''http:''"
    by (simp add: mk_url_def)
  have n2: "\<not> port_allowed (effective_port (mk_url ''http:'' ''c.example'' ''8081'' ''/''))"
    by code_simp
  have p3: "new_URL small_web ''http://c.example/'' = Some (mk_url ''http:'' ''c.example'' [] ''/'')"
    by code_simp
  have s3: "protocol (mk_url ''http:'' ''c.example'' [] ''/'') = ''http:''"
    by (simp add: mk_url_def)
  have a3: "port_allowed (effective_port (mk_url ''http:'' ''c.example'' [] ''/''))"
    by code_simp
  have r0: "validateAndSanitizeUrl offline ''not a url'' [] = (Inl InvalidURLFormat, [])"
    using sanitize_fail_fast_order [of offline "''not a url''" "[]"] p0 by blast
  have r1: "validateAndSanitizeUrl small_web ''ftp://127.0.0.1:22/'' [] = (Inl ProtocolNotAllowed, [])
            \<and> analyzeWebsite small_web ''ftp://127.0.0.1:22/'' [] = Some (Inl ProtocolNotAllowed, [])"
    using sanitize_fail_fast_order [of small_web "''ftp://127.0.0.1:22/''" "[]"] p1 s1 by blast
  have r2: "validateAndSanitizeUrl small_web ''http://c.example:8081/'' [] =
              (Inl (PortNotAllowed (effective_port (mk_url ''http:'' ''c.example'' ''8081'' ''/''))), [])"
    using sanitize_fail_fast_order [of small_web "''http://c.example:8081/''" "[]"] p2 s2 n2 by blast
  have r3: "validateAndSanitizeUrl small_web ''http://c.example/'' [] =
              hostname_stage small_web (mk_url ''http:'' ''c.example'' [] ''/'') []"
    using sanitize_fail_fast_order [of small_web "''http://c.example/''" "[]"] p3 s3 a3 by blast
  from p0 r0 p1 s1 r1 p2 n2 r2 p3 a3 r3 show ?thesis by blast
qed
section \<open>The port allow-list\<close>



section \<open>Tolerance of one failing address family\<close>

text \<open>
  Claim C8, as stated, counts a resolver that returns zero addresses as the failure of its
  family, and says that validation fails when both families fail.  In the code an empty
  answer completes the \<^verbatim>\<open>try\<close> block and sets the success flag: \<^verbatim>\<open>empty.example\<close>, with
  two empty answers, is accepted.
\<close>

theorem empty_answers_pass_validation:
  "\<not> isIPAddress ''empty.example''
   \<and> dnsResolve4 split_dns ''empty.example'' = Some []
   \<and> dnsResolve6 split_dns ''empty.example'' = Some []
   \<and> validateHostname split_dns ''empty.example'' [] =
       (Inr (), [Resolve4 ''empty.example'', Resolve6 ''empty.example''])"
  by code_simp

text \<open>
  Claim C8, amended.  For a hostname that is not a literal address, both resolver calls are
  always made, IPv4 first.  When no returned address is blocked (or, for IPv4, a metadata
  address), validation fails if and only if both resolver calls reject, and it fails with
  the resolution failure; so the rejection of one family alone does not abort validation,
  and an empty answer counts as a successful resolution.
\<close>

theorem resolution_failure_tolerance:
  assumes "\<not> isIPAddress host"
      and "\<forall>ips. dnsResolve4 env host = Some ips \<longrightarrow>
                 (\<forall>ip \<in> set ips. \<not> isBlockedIP ip \<and> ip \<notin> set METADATA_IPS)"
      and "\<forall>ips. dnsResolve6 env host = Some ips \<longrightarrow> (\<forall>ip \<in> set ips. \<not> isBlockedIP ip)"
  shows "validateHostname env host tr =
           (if dnsResolve4 env host = None \<and> dnsResolve6 env host = None
            then Inl (ResolutionFailure host) else Inr (),
            tr @ [Resolve4 host, Resolve6 host])"
proof -
  have v4: "isl (ipv4_try env host) = (dnsResolve4 env host = None)"
    using assms(2) by (cases "dnsResolve4 env host") (auto simp: ipv4_try_def ipv4_loop_ok [symmetric])
  have v6: "isl (ipv6_try env host) = (dnsResolve6 env host = None)"
    using assms(3) by (cases "dnsResolve6 env host") (auto simp: ipv6_try_def ipv6_loop_ok [symmetric])
  show ?thesis
    by (simp add: validateHostname_resolved [OF assms(1)] v4 v6)
qed

theorem resolution_failure_tolerance_witness:
  "\<not> isIPAddress ''v6only.example''
   \<and> dnsResolve4 split_dns ''v6only.example'' = None
   \<and> dnsResolve6 split_dns ''v6only.example'' = Some [''2001:db8::2'']
   \<and> \<not> isBlockedIP ''2001:db8::2''
   \<and> validateHostname split_dns ''v6only.example'' [] =
       (Inr (), [Resolve4 ''v6only.example'', Resolve6 ''v6only.example''])"
proof -
  have n: "\<not> isIPAddress ''v6only.example''" by code_simp
  have r4: "dnsResolve4 split_dns ''v6only.example'' = None" by code_simp
  have r6: "dnsResolve6 split_dns ''v6only.example'' = Some [''2001:db8::2'']" by code_simp
  have b: "\<not> isBlockedIP ''2001:db8::2''" by code_simp
  have h4: "\<forall>ips. dnsResolve4 split_dns ''v6only.example'' = Some ips \<longrightarrow>
              (\<forall>ip \<in> set ips. \<not> isBlockedIP ip \<and> ip \<notin> set METADATA_IPS)"
    by (simp add: r4)
  have h6: "\<forall>ips. dnsResolve6 split_dns ''v6only.example'' = Some ips \<longrightarrow>
              (\<forall>ip \<in> set ips. \<not> isBlockedIP ip)"
    using b by (simp add: r6)
  from resolution_failure_tolerance [OF n h4 h6, of "[]"] n r4 r6 b show ?thesis by simp
qed

section \<open>The scoring scenario\<close>

text \<open>
  Claim C9.  For a metadata record with a title of 45 characters, no description, the three
  Open Graph fields present (non-empty, as \<^verbatim>\<open>parseMetaTags\<close> delivers them) and no canonical
  link: the score is 100 less 20 for the description and 8 for the canonical link, less 5
  more when the viewport is absent; exactly one issue is an error, the missing meta
  description; the missing canonical URL is among the warnings; and the tags hold the
  title with status good.
\<close>

theorem scenario_score:
  assumes "title m = Some t" and "length t = 45"
      and "\<not> truthy (description m)"
      and "truthy (ogTitle m)" and "truthy (ogDescription m)" and "truthy (ogImage m)"
      and "\<not> truthy (canonical m)"
  shows "score (calculateSEOScore m analysed) = 100 - 20 - 8 - (if truthy (viewport m) then 0 else 5)
       \<and> filter (\<lambda>i. type i = IssueError) (issues (calculateSEOScore m analysed)) =
           [\<lparr>type = IssueError, message = ''Missing meta description''\<rparr>]
       \<and> \<lparr>type = IssueWarning, message = ''Missing canonical URL''\<rparr>
           \<in> set (issues (calculateSEOScore m analysed))
       \<and> \<lparr>name = ''title'', content = t, status = Good, recommendation = None\<rparr>
           \<in> set (tags (calculateSEOScore m analysed))"
proof -
  have tt: "truthy (title m)" "text_of (title m) = t"
    using assms(1,2) by auto
  show ?thesis
    using assms(2-) tt
    by (simp add: calculateSEOScore_def score_title_def score_description_def
          score_open_graph_def score_og_image_def score_canonical_def score_viewport_def
          score_robots_def penalty_def push_issue_def push_tag_def Let_def)
qed

theorem scenario_score_witness:
  "title scenario_meta = Some ''Example Domain - Illustrative Examples Online''
   \<and> length ''Example Domain - Illustrative Examples Online'' = 45
   \<and> \<not> truthy (description scenario_meta) \<and> truthy (ogTitle scenario_meta)
   \<and> truthy (ogDescription scenario_meta) \<and> truthy (ogImage scenario_meta)
   \<and> \<not> truthy (canonical scenario_meta) \<and> \<not> truthy (viewport scenario_meta)
   \<and> score (calculateSEOScore scenario_meta ''https://example.com/'') = 67"
proof -
  have t: "title scenario_meta = Some ''Example Domain - Illustrative Examples Online''"
    by (simp add: scenario_meta_def)
  have l: "length ''Example Domain - Illustrative Examples Online'' = 45" by simp
  have d: "\<not> truthy (description scenario_meta)" and c: "\<not> truthy (canonical scenario_meta)"
    and v: "\<not> truthy (viewport scenario_meta)"
    by (simp_all add: scenario_meta_def no_meta_def)
  have o: "truthy (ogTitle scenario_meta)" "truthy (ogDescription scenario_meta)"
    "truthy (ogImage scenario_meta)"
    by (simp_all add: scenario_meta_def)
  from scenario_score [OF t l d o c, of "''https://example.com/''"] t l d o c v
  show ?thesis by simp
qed

section \<open>Dotted quads as literals\<close>

text \<open>
  Claim C10.  Every hostname of the dotted-quad shape, whatever the value of its groups, is
  an IP literal for \<^verbatim>\<open>isIPAddress\<close>; \<^verbatim>\<open>validateHostname\<close> makes no resolver call for it, and
  accepts it when it matches no blocked range and is no metadata address.
\<close>

theorem dotted_quad_is_literal:
  assumes "digit_group a" and "digit_group b" and "digit_group c" and "digit_group d"
  shows "isIPAddress (dotted_quad a b c d)
       \<and> snd (validateHostname env (dotted_quad a b c d) tr) = tr
       \<and> (\<not> isBlockedIP (dotted_quad a b c d) \<and> dotted_quad a b c d \<notin> set METADATA_IPS \<longrightarrow>
            validateHostname env (dotted_quad a b c d) tr = (Inr (), tr))"
proof -
  have lit: "isIPAddress (dotted_quad a b c d)"
    using dotted_quad_shape [OF assms] by (simp add: isIPAddress_def)
  then show ?thesis by (simp add: validateHostname_literal)
qed

text \<open>The numerically invalid \<^verbatim>\<open>999.1.1.1\<close> is accepted.\<close>

theorem dotted_quad_is_literal_witness:
  "digit_group ''999'' \<and> digit_group ''1''
   \<and> dotted_quad ''999'' ''1'' ''1'' ''1'' = ''999.1.1.1''
   \<and> \<not> isBlockedIP ''999.1.1.1'' \<and> ''999.1.1.1'' \<notin> set METADATA_IPS
   \<and> isIPAddress ''999.1.1.1''
   \<and> validateHostname offline ''999.1.1.1'' [] = (Inr (), [])"
proof -
  have g9: "digit_group ''999''" and g1: "digit_group ''1''"
    by (simp_all add: digit_group_def is_digit_def)
  have q: "dotted_quad ''999'' ''1'' ''1'' ''1'' = ''999.1.1.1''"
    by (simp add: dotted_quad_def)
  have nb: "\<not> isBlockedIP ''999.1.1.1''" by code_simp
  have nm: "''999.1.1.1'' \<notin> set METADATA_IPS" by code_simp
  from dotted_quad_is_literal [OF g9 g1 g1 g1, of offline "[]"] g9 g1 nb nm show ?thesis
    by (simp add: q)
qed

end
